theory Spec2Isabelle
  imports Main "HOL-Library.Multiset"
begin

section \<open>Strings\<close>

text \<open>
  A Python \<open>str\<close> is modelled by its UTF-8 bytes, a \<open>string\<close>. Concatenation, comparison,
  \<open>startswith\<close>, the replacement of an ASCII character and \<open>quote_plus\<close> are exact on the
  bytes. \<open>str.lower\<close>, \<open>str.strip\<close> and \<open>str.split\<close> follow the Unicode tables of the
  interpreter, which are no part of the source: the handlers take them as the parameter
  \<open>py\<close>, a record of the three methods, and every property below holds for whatever these
  methods are.
\<close>

record str_methods =
  lower :: "string \<Rightarrow> string"
  strip :: "string \<Rightarrow> string"
  split :: "string \<Rightarrow> string list"

definition startswith :: "string \<Rightarrow> string \<Rightarrow> bool" where
  "startswith s p = (take (length p) s = p)"

text \<open>\<open>s.replace(c, "")\<close> for a one-character \<open>c\<close>: every occurrence is dropped.\<close>

definition replace_with_empty :: "string \<Rightarrow> char \<Rightarrow> string" where
  "replace_with_empty s c = filter (\<lambda>x. x \<noteq> c) s"

text \<open>\<open>urllib.parse.quote_plus\<close> on the UTF-8 bytes: letters, digits and \<open>_.-~\<close> stay,
  a space becomes \<open>+\<close>, every other byte becomes \<open>%XX\<close> in upper-case hexadecimal.\<close>

definition hex_digit :: "nat \<Rightarrow> char" where
  "hex_digit n = (if n < 10 then char_of (48 + n) else char_of (55 + n))"

definition always_safe :: "char \<Rightarrow> bool" where
  "always_safe c =
     (let n = (of_char c :: nat) in
        (65 \<le> n \<and> n \<le> 90) \<or> (97 \<le> n \<and> n \<le> 122) \<or> (48 \<le> n \<and> n \<le> 57)
        \<or> c \<in> set ''_.-~'')"

definition quote_char :: "char \<Rightarrow> string" where
  "quote_char c =
     (if c = CHR '' '' then ''+''
      else if always_safe c then [c]
      else (let n = (of_char c :: nat) in [CHR ''%'', hex_digit (n div 16), hex_digit (n mod 16)]))"

definition quote_plus :: "string \<Rightarrow> string" where
  "quote_plus s = concat (map quote_char s)"

section \<open>Dates\<close>

text \<open>A naive \<open>datetime\<close>, as the SQLite \<open>DateTime\<close> columns hand it back.\<close>

record datetime =
  year :: nat
  month :: nat
  day :: nat
  hour :: nat
  minute :: nat
  second :: nat
  microsecond :: nat

text \<open>\<open>pad w n\<close> is \<open>n\<close> in decimal, zero-padded to \<open>w\<close> digits (\<open>%0wd\<close> for an \<open>n\<close>
  of at most \<open>w\<close> digits, which the field ranges of \<open>datetime\<close> guarantee).\<close>

fun pad :: "nat \<Rightarrow> nat \<Rightarrow> string" where
  "pad 0 n = []"
| "pad (Suc w) n = pad w (n div 10) @ [char_of (48 + n mod 10)]"

definition isoformat :: "datetime \<Rightarrow> string" where
  "isoformat d =
     pad 4 (year d) @ ''-'' @ pad 2 (month d) @ ''-'' @ pad 2 (day d) @ ''T''
     @ pad 2 (hour d) @ '':'' @ pad 2 (minute d) @ '':'' @ pad 2 (second d)
     @ (if microsecond d = 0 then [] else ''.'' @ pad 6 (microsecond d))"

section \<open>Tables (models.py) and request bodies (schemas.py)\<close>

record User =
  u_id :: int
  u_name :: string
  u_email :: string
  u_password_hash :: string
  u_role :: string
  u_created_at :: datetime

record Patient =
  p_id :: int
  p_name :: string
  p_age :: "int option"
  p_contact :: "string option"
  p_notes :: "string option"
  p_created_by :: string
  p_assigned_doctor_email :: "string option"
  p_created_at :: datetime

record Consultation =
  c_id :: int
  c_patient_id :: int
  c_video_url :: string
  c_scheduled_at :: "datetime option"
  c_created_by :: string
  c_status :: "string option"
  c_doctor_notes :: "string option"
  c_created_at :: datetime

text \<open>The database: the three tables, rows in insertion order.\<close>

record db =
  users :: "User list"
  patients :: "Patient list"
  consultations :: "Consultation list"

definition empty_db :: db where
  "empty_db = \<lparr>users = [], patients = [], consultations = []\<rparr>"

text \<open>An \<open>INTEGER PRIMARY KEY\<close> of SQLite: one more than the largest id of the table,
  1 in an empty table.\<close>

definition next_id :: "int list \<Rightarrow> int" where
  "next_id ids = fold max ids 0 + 1"

text \<open>\<open>order_by(id.desc())\<close>.\<close>

definition order_by_desc :: "('a \<Rightarrow> int) \<Rightarrow> 'a list \<Rightarrow> 'a list" where
  "order_by_desc k xs = sort_key (\<lambda>x. - k x) xs"

text \<open>\<open>Role = Literal["sales", "doctor", "admin"]\<close>; the column \<open>users.role\<close> is a string.\<close>

datatype Role = R_sales | R_doctor | R_admin

fun role_str :: "Role \<Rightarrow> string" where
  "role_str R_sales = ''sales''"
| "role_str R_doctor = ''doctor''"
| "role_str R_admin = ''admin''"

record RegisterUser =
  ru_name :: string
  ru_email :: string
  ru_password :: string
  ru_role :: Role



record PatientCreate =
  pc_name :: string
  pc_age :: "int option"
  pc_contact :: "string option"
  pc_notes :: "string option"

record AssignPatientRequest =
  ap_patient_id :: int
  ap_doctor_email :: string

record ScheduleConsultationRequest =
  sc_patient_id :: int
  sc_scheduled_at :: "datetime option"

record ConsultationShareRequest =
  consultation_id :: int
  phone_e164 :: "string option"

record ConsultationShareResponse =
  message :: string

record WhatsAppLinkResponse =
  wa_link :: string

section \<open>Errors\<close>

text \<open>\<open>HTTPException status detail\<close> is what a handler raises; \<open>AttributeError\<close>,
  \<open>IndexError\<close> and \<open>OverflowError\<close> are the Python errors of reading a field of \<open>None\<close>,
  of indexing an empty list, and of handing SQLite an integer it cannot hold.\<close>

datatype error = HTTPException nat string | AttributeError | IndexError | OverflowError

section \<open>Tokens and passwords (utils.py)\<close>

text \<open>
  The libraries are parameters. \<open>jwt_decode token\<close> is the outcome of
  \<open>jwt.decode(token, SECRET_KEY, algorithms=[ALGORITHM])\<close> at the time of the request:
  \<open>JWTError\<close>, or the payload's \<open>sub\<close> entry. \<open>jwt_encode\<close> is \<open>jwt.encode\<close> on the
  claims, \<open>hash_password\<close> and \<open>verify_password\<close> are the two calls of passlib.
\<close>

datatype jwt_result = JWTError | Payload "string option"

text \<open>The claims of an access token; \<open>exp\<close> is the issue time with the minutes to add.\<close>

record claims =
  sub :: string
  role :: string
  exp :: "datetime \<times> nat"



section \<open>Security (main.py)\<close>

record HTTPAuthorizationCredentials =
  scheme :: string
  credentials :: string

definition get_current_user ::
  "str_methods \<Rightarrow> (string \<Rightarrow> jwt_result) \<Rightarrow> HTTPAuthorizationCredentials option \<Rightarrow> db
     \<Rightarrow> error + User" where
  "get_current_user py jwt_decode creds d =
     (case creds of
        None \<Rightarrow> Inl (HTTPException 401 ''Missing or invalid token'')
      | Some cr \<Rightarrow>
          if scheme cr = [] then Inl (HTTPException 401 ''Missing or invalid token'')
          else
            (let token = strip py (credentials cr) in
             case (if startswith (lower py token) ''bearer ''
                   then (case split py token of [] \<Rightarrow> Inl IndexError | ws \<Rightarrow> Inr (last ws))
                   else Inr token) of
               Inl e \<Rightarrow> Inl e
             | Inr token \<Rightarrow>
                 (case jwt_decode token of
                    JWTError \<Rightarrow> Inl (HTTPException 401 ''Invalid or expired token'')
                  | Payload user_email \<Rightarrow>
                      (case user_email of
                         None \<Rightarrow> Inl (HTTPException 401 ''Invalid token payload'')
                       | Some e \<Rightarrow>
                           if e = [] then Inl (HTTPException 401 ''Invalid token payload'')
                           else (case find (\<lambda>u. u_email u = e) (users d) of
                                   None \<Rightarrow> Inl (HTTPException 401 ''User not found'')
                                 | Some user \<Rightarrow> Inr user)))))"

section \<open>Auth (main.py)\<close>

text \<open>
  A handler takes the request, the caller that \<open>get_current_user\<close> resolved and the
  database, and returns its response or error together with the database it leaves.
  \<open>register\<close>: the commit fails with \<open>IntegrityError\<close> exactly when the unique index on
  \<open>users.email\<close> already holds the new row's email; the rollback leaves the table as it was.
\<close>

definition register ::
  "str_methods \<Rightarrow> (string \<Rightarrow> string) \<Rightarrow> datetime \<Rightarrow> RegisterUser \<Rightarrow> db
     \<Rightarrow> (error + User) \<times> db" where
  "register py hash_password utcnow payload d =
     (let user = \<lparr>u_id = next_id (map u_id (users d)),
                  u_name = ru_name payload,
                  u_email = strip py (lower py (ru_email payload)),
                  u_password_hash = hash_password (ru_password payload),
                  u_role = role_str (ru_role payload),
                  u_created_at = utcnow\<rparr>
      in if \<exists>u \<in> set (users d). u_email u = u_email user
         then (Inl (HTTPException 400 ''Email already registered''), d)
         else (Inr user, d\<lparr>users := users d @ [user]\<rparr>))"


section \<open>Patients (main.py)\<close>

definition create_patient ::
  "datetime \<Rightarrow> PatientCreate \<Rightarrow> User \<Rightarrow> db \<Rightarrow> (error + Patient) \<times> db" where
  "create_patient utcnow payload current_user d =
     (if u_role current_user \<noteq> ''sales''
      then (Inl (HTTPException 403 ''Only sales role can create patients''), d)
      else (let patient = \<lparr>p_id = next_id (map p_id (patients d)),
                            p_name = pc_name payload,
                            p_age = pc_age payload,
                            p_contact = pc_contact payload,
                            p_notes = pc_notes payload,
                            p_created_by = u_email current_user,
                            p_assigned_doctor_email = None,
                            p_created_at = utcnow\<rparr>
            in (Inr patient, d\<lparr>patients := patients d @ [patient]\<rparr>)))"

definition list_patients :: "User \<Rightarrow> db \<Rightarrow> error + Patient list" where
  "list_patients current_user d =
     (if u_role current_user = ''sales''
      then Inr (order_by_desc p_id (patients d))
      else if u_role current_user = ''doctor''
      then Inr (order_by_desc p_id
                  (filter (\<lambda>p. p_assigned_doctor_email p = Some (u_email current_user))
                     (patients d)))
      else Inl (HTTPException 403 ''Role not permitted''))"

text \<open>
  The \<open>patient_id\<close> of the body is a Python \<open>int\<close> of any size, and SQLite binds a query
  parameter as a signed 64-bit integer: for an id outside that range the patient query of
  \<open>assign_patient\<close> raises \<open>OverflowError\<close> and reads no row. The commit is
  \<open>UPDATE patients SET assigned_doctor_email = ? WHERE id = ?\<close>.
\<close>

definition fits_int64 :: "int \<Rightarrow> bool" where
  "fits_int64 i = (- (2 ^ 63) \<le> i \<and> i < 2 ^ 63)"

definition assign_patient ::
  "str_methods \<Rightarrow> AssignPatientRequest \<Rightarrow> User \<Rightarrow> db \<Rightarrow> (error + Patient) \<times> db" where
  "assign_patient py payload current_user d =
     (if u_role current_user \<noteq> ''sales''
      then (Inl (HTTPException 403 ''Only sales can assign patients''), d)
      else if \<not> fits_int64 (ap_patient_id payload)
      then (Inl OverflowError, d)
      else
        (case find (\<lambda>p. p_id p = ap_patient_id payload) (patients d) of
           None \<Rightarrow> (Inl (HTTPException 404 ''Patient not found''), d)
         | Some patient \<Rightarrow>
             (case find (\<lambda>u. u_email u = strip py (lower py (ap_doctor_email payload))) (users d) of
                None \<Rightarrow> (Inl (HTTPException 400 ''Doctor email invalid or not a doctor''), d)
              | Some doc \<Rightarrow>
                  if u_role doc \<noteq> ''doctor''
                  then (Inl (HTTPException 400 ''Doctor email invalid or not a doctor''), d)
                  else
                    (Inr (patient\<lparr>p_assigned_doctor_email := Some (u_email doc)\<rparr>),
                     d\<lparr>patients :=
                          map (\<lambda>p. if p_id p = p_id patient
                                    then p\<lparr>p_assigned_doctor_email := Some (u_email doc)\<rparr>
                                    else p)
                            (patients d)\<rparr>))))"

section \<open>Consultations (main.py)\<close>

text \<open>\<open>token_urlsafe\<close> is the string that \<open>secrets.token_urlsafe(6)\<close> drew.\<close>

definition schedule_consultation ::
  "string \<Rightarrow> datetime \<Rightarrow> ScheduleConsultationRequest \<Rightarrow> User \<Rightarrow> db
     \<Rightarrow> (error + Consultation) \<times> db" where
  "schedule_consultation token_urlsafe utcnow payload current_user d =
     (case find (\<lambda>p. p_id p = sc_patient_id payload) (patients d) of
        None \<Rightarrow> (Inl (HTTPException 404 ''Patient not found''), d)
      | Some patient \<Rightarrow>
          if u_role current_user = ''doctor''
             \<and> p_assigned_doctor_email patient \<noteq> Some (u_email current_user)
          then (Inl (HTTPException 403 ''Doctor not assigned to this patient''), d)
          else if u_role current_user \<notin> set [''sales'', ''doctor'']
          then (Inl (HTTPException 403 ''Not allowed to schedule consultations''), d)
          else
            (let room_name = ''Prakvedaa-'' @ token_urlsafe;
                 video_url = ''https://meet.jit.si/'' @ room_name;
                 consultation = \<lparr>c_id = next_id (map c_id (consultations d)),
                                  c_patient_id = p_id patient,
                                  c_video_url = video_url,
                                  c_scheduled_at = sc_scheduled_at payload,
                                  c_created_by = u_email current_user,
                                  c_status = Some ''pending'',
                                  c_doctor_notes = None,
                                  c_created_at = utcnow\<rparr>
             in (Inr consultation, d\<lparr>consultations := consultations d @ [consultation]\<rparr>)))"

definition list_consultations :: "User \<Rightarrow> db \<Rightarrow> error + Consultation list" where
  "list_consultations current_user d =
     (if u_role current_user = ''sales''
      then Inr (order_by_desc c_id (consultations d))
      else if u_role current_user = ''doctor''
      then Inr (order_by_desc c_id
                  (concat (map (\<lambda>c. map (\<lambda>p. c)
                                       (filter (\<lambda>p. p_id p = c_patient_id c
                                                  \<and> p_assigned_doctor_email p
                                                      = Some (u_email current_user))
                                          (patients d)))
                             (consultations d))))
      else Inl (HTTPException 403 ''Role not permitted''))"

section \<open>Sharing (main.py)\<close>

text \<open>The non-ASCII prefixes of the lines of the share message, as the UTF-8 bytes of the
  source file.\<close>

definition link_prefix :: string where
  "link_prefix = [CHR 0xEF, CHR 0xA3, CHR 0xBF, CHR 0xC3, CHR 0xBC, CHR 0xC3, CHR 0xAE,
                  CHR 0xC3, CHR 0xB3]"

definition doctor_prefix :: string where
  "doctor_prefix = [CHR 0xEF, CHR 0xA3, CHR 0xBF, CHR 0xC3, CHR 0xBC, CHR 0xC3, CHR 0xAB,
                    CHR 0xC2, CHR 0xAE, CHR 0xE2, CHR 0x80, CHR 0x9A, CHR 0xC3, CHR 0x84,
                    CHR 0xC3, CHR 0xA7, CHR 0xE2, CHR 0x80, CHR 0x9A, CHR 0xC3, CHR 0xB6,
                    CHR 0xC3, CHR 0xAF, CHR 0xC3, CHR 0x94, CHR 0xE2, CHR 0x88, CHR 0x8F,
                    CHR 0xC3, CHR 0xA8]"

definition time_prefix :: string where
  "time_prefix = [CHR 0xEF, CHR 0xA3, CHR 0xBF, CHR 0xC3, CHR 0xBC, CHR 0xC3, CHR 0xAF,
                  CHR 0xC3, CHR 0xAD]"

definition sent_prefix :: string where
  "sent_prefix = [CHR 0xE2, CHR 0x80, CHR 0x9A, CHR 0xC3, CHR 0x84, CHR 0xC3, CHR 0xAE]"

text \<open>Truth of an optional string, and \<open>x or default\<close>: \<open>None\<close> and the empty string are
  falsy.\<close>

definition truthy :: "string option \<Rightarrow> bool" where
  "truthy x = (case x of None \<Rightarrow> False | Some s \<Rightarrow> s \<noteq> [])"

definition or_else :: "string option \<Rightarrow> string \<Rightarrow> string" where
  "or_else x dflt = (case x of None \<Rightarrow> dflt | Some s \<Rightarrow> if s = [] then dflt else s)"

definition share_message ::
  "ConsultationShareRequest \<Rightarrow> User \<Rightarrow> db \<Rightarrow> error + ConsultationShareResponse" where
  "share_message payload current_user d =
     (case find (\<lambda>c. c_id c = consultation_id payload) (consultations d) of
        None \<Rightarrow> Inl (HTTPException 404 ''Consultation not found'')
      | Some cons \<Rightarrow>
          (case find (\<lambda>p. p_id p = c_patient_id cons) (patients d) of
             None \<Rightarrow> Inl (HTTPException 404 ''Patient not found'')
           | Some patient \<Rightarrow>
               if u_role current_user = ''doctor''
                  \<and> p_assigned_doctor_email patient \<noteq> Some (u_email current_user)
               then Inl (HTTPException 403 ''Not allowed to share this consultation'')
               else
                 (let when_str = (case c_scheduled_at cons of
                                    Some t \<Rightarrow> isoformat t | None \<Rightarrow> ''Now'');
                      doc_str = or_else (p_assigned_doctor_email patient) ''TBD'';
                      msg = ''Hello '' @ p_name patient
                              @ '', your video consultation is scheduled.'' @ [CHR 0x0A]
                            @ link_prefix @ '' Link: '' @ c_video_url cons @ [CHR 0x0A]
                            @ doctor_prefix @ '' Doctor: '' @ doc_str @ [CHR 0x0A]
                            @ time_prefix @ '' Time: '' @ when_str @ [CHR 0x0A]
                            @ sent_prefix @ '' Sent by '' @ u_email current_user
                  in Inr \<lparr>message = msg\<rparr>)))"

definition whatsapp_link ::
  "ConsultationShareRequest \<Rightarrow> User \<Rightarrow> db \<Rightarrow> error + WhatsAppLinkResponse" where
  "whatsapp_link payload current_user d =
     (case find (\<lambda>c. c_id c = consultation_id payload) (consultations d) of
        None \<Rightarrow> Inl (HTTPException 404 ''Consultation not found'')
      | Some cons \<Rightarrow>
          (case find (\<lambda>p. p_id p = c_patient_id cons) (patients d) of
             None \<Rightarrow> Inl (HTTPException 404 ''Patient not found'')
           | Some patient \<Rightarrow>
               if u_role current_user = ''doctor''
                  \<and> p_assigned_doctor_email patient \<noteq> Some (u_email current_user)
               then Inl (HTTPException 403 ''Not allowed to share this consultation'')
               else
                 (let when_str = (case c_scheduled_at cons of
                                    Some t \<Rightarrow> isoformat t | None \<Rightarrow> ''Now'');
                      doc_str = or_else (p_assigned_doctor_email patient) ''TBD'';
                      msg = ''Hello '' @ p_name patient
                              @ '', your video consultation is scheduled.'' @ [CHR 0x0A]
                            @ ''Link: '' @ c_video_url cons @ [CHR 0x0A]
                            @ ''Doctor: '' @ doc_str @ [CHR 0x0A]
                            @ ''Time: '' @ when_str;
                      encoded = quote_plus msg;
                      phone = (if truthy (phone_e164 payload)
                               then phone_e164 payload
                               else if truthy (p_contact patient)
                               then map_option
                                      (\<lambda>c. replace_with_empty (replace_with_empty c CHR ''+'')
                                              CHR '' '')
                                      (p_contact patient)
                               else None)
                  in (case phone of
                        None \<Rightarrow>
                          Inl (HTTPException 400 ''No phone provided and patient.contact empty'')
                      | Some ph \<Rightarrow>
                          if ph = []
                          then Inl (HTTPException 400 ''No phone provided and patient.contact empty'')
                          else Inr \<lparr>wa_link = ''https://wa.me/'' @ ph @ ''?text='' @ encoded\<rparr>))))"

definition whatsapp_send_direct ::
  "ConsultationShareRequest \<Rightarrow> User \<Rightarrow> db \<Rightarrow> error + WhatsAppLinkResponse" where
  "whatsapp_send_direct payload current_user d =
     (case find (\<lambda>c. c_id c = consultation_id payload) (consultations d) of
        None \<Rightarrow> Inl (HTTPException 404 ''Consultation not found'')
      | Some cons \<Rightarrow>
          (case find (\<lambda>p. p_id p = c_patient_id cons) (patients d) of
             None \<Rightarrow> Inl (HTTPException 404 ''Patient not found'')
           | Some patient \<Rightarrow>
               if u_role current_user = ''doctor''
                  \<and> p_assigned_doctor_email patient \<noteq> Some (u_email current_user)
               then Inl (HTTPException 403 ''Not allowed to share this consultation'')
               else
                 (let when_str = (case c_scheduled_at cons of
                                    Some t \<Rightarrow> isoformat t | None \<Rightarrow> ''Now'');
                      doc_str = or_else (p_assigned_doctor_email patient) ''TBD'';
                      msg = ''Hello '' @ p_name patient
                              @ '', your video consultation is scheduled.'' @ [CHR 0x0A]
                            @ ''Link: '' @ c_video_url cons @ [CHR 0x0A]
                            @ ''Doctor: '' @ doc_str @ [CHR 0x0A]
                            @ ''Time: '' @ when_str;
                      encoded = quote_plus msg;
                      phone = (if truthy (phone_e164 payload)
                               then phone_e164 payload
                               else if truthy (p_contact patient)
                               then map_option
                                      (\<lambda>c. replace_with_empty (replace_with_empty c CHR ''+'')
                                              CHR '' '')
                                      (p_contact patient)
                               else None)
                  in (case phone of
                        None \<Rightarrow>
                          Inl (HTTPException 400 ''No phone provided and patient.contact empty'')
                      | Some ph \<Rightarrow>
                          if ph = []
                          then Inl (HTTPException 400 ''No phone provided and patient.contact empty'')
                          else Inr \<lparr>wa_link = ''https://wa.me/'' @ ph @ ''?text='' @ encoded\<rparr>))))"

section \<open>Users and consultation updates (main.py)\<close>

definition list_users :: "string option \<Rightarrow> User \<Rightarrow> db \<Rightarrow> User list" where
  "list_users role_filter current_user d =
     (let q = (if truthy role_filter
               then filter (\<lambda>u. Some (u_role u) = role_filter) (users d)
               else users d)
      in order_by_desc u_id q)"

text \<open>
  \<open>update_consultation\<close> reads \<open>patient.assigned_doctor_email\<close> without checking that the
  patient row was found: for a doctor that is an \<open>AttributeError\<close> when it was not. The
  commit is \<open>UPDATE consultations SET doctor_notes = ?, status = ? WHERE id = ?\<close>.
\<close>

definition update_consultation ::
  "str_methods \<Rightarrow> int \<Rightarrow> string option \<Rightarrow> string option \<Rightarrow> User \<Rightarrow> db
     \<Rightarrow> (error + Consultation) \<times> db" where
  "update_consultation py cid notes status current_user d =
     (case find (\<lambda>c. c_id c = cid) (consultations d) of
        None \<Rightarrow> (Inl (HTTPException 404 ''Consultation not found''), d)
      | Some consultation \<Rightarrow>
          (let patient = find (\<lambda>p. p_id p = c_patient_id consultation) (patients d) in
           if u_role current_user = ''doctor'' \<and> patient = None
           then (Inl AttributeError, d)
           else if u_role current_user = ''doctor''
                   \<and> Option.bind patient p_assigned_doctor_email \<noteq> Some (u_email current_user)
           then (Inl (HTTPException 403 ''Not allowed to update this consultation''), d)
           else
             (let doctor_notes = (case notes of
                                    None \<Rightarrow> c_doctor_notes consultation
                                  | Some n \<Rightarrow> if n \<noteq> [] then Some (strip py n)
                                              else c_doctor_notes consultation);
                  status' = (case status of
                               None \<Rightarrow> c_status consultation
                             | Some s \<Rightarrow> Some (lower py s))
              in (Inr (consultation\<lparr>c_doctor_notes := doctor_notes, c_status := status'\<rparr>),
                  d\<lparr>consultations :=
                       map (\<lambda>c. if c_id c = c_id consultation
                                 then c\<lparr>c_doctor_notes := doctor_notes, c_status := status'\<rparr>
                                 else c)
                         (consultations d)\<rparr>))))"


section \<open>Requests and reachable databases\<close>

text \<open>\<open>GET /users\<close> as FastAPI runs it: the dependency \<open>get_current_user\<close>, then the
  handler.\<close>

definition GET_users ::
  "str_methods \<Rightarrow> (string \<Rightarrow> jwt_result) \<Rightarrow> HTTPAuthorizationCredentials option
     \<Rightarrow> string option \<Rightarrow> db \<Rightarrow> error + User list" where
  "GET_users py jwt_decode creds role_filter d =
     (case get_current_user py jwt_decode creds d of
        Inl e \<Rightarrow> Inl e
      | Inr current_user \<Rightarrow> Inr (list_users role_filter current_user d))"

text \<open>
  The requests that write. Each carries what its handler reads besides the database: the
  credentials with the token decoder of the moment, the clock, the library outcomes and the
  body. \<open>handle\<close> runs the dependency \<open>get_current_user\<close> and then the handler, and gives
  the database the request leaves; every other request of the API only reads.
\<close>

datatype request =
    Register "string \<Rightarrow> string" datetime RegisterUser
  | CreatePatient "string \<Rightarrow> jwt_result" "HTTPAuthorizationCredentials option" datetime
      PatientCreate
  | AssignPatient "string \<Rightarrow> jwt_result" "HTTPAuthorizationCredentials option"
      AssignPatientRequest
  | ScheduleConsultation "string \<Rightarrow> jwt_result" "HTTPAuthorizationCredentials option" string
      datetime ScheduleConsultationRequest
  | UpdateConsultation "string \<Rightarrow> jwt_result" "HTTPAuthorizationCredentials option" int
      "string option" "string option"

fun handle :: "str_methods \<Rightarrow> request \<Rightarrow> db \<Rightarrow> db" where
  "handle py (Register hash_password utcnow payload) d =
     snd (register py hash_password utcnow payload d)"
| "handle py (CreatePatient jwt_decode creds utcnow payload) d =
     (case get_current_user py jwt_decode creds d of
        Inl e \<Rightarrow> d
      | Inr current_user \<Rightarrow> snd (create_patient utcnow payload current_user d))"
| "handle py (AssignPatient jwt_decode creds payload) d =
     (case get_current_user py jwt_decode creds d of
        Inl e \<Rightarrow> d
      | Inr current_user \<Rightarrow> snd (assign_patient py payload current_user d))"
| "handle py (ScheduleConsultation jwt_decode creds token_urlsafe utcnow payload) d =
     (case get_current_user py jwt_decode creds d of
        Inl e \<Rightarrow> d
      | Inr current_user \<Rightarrow>
          snd (schedule_consultation token_urlsafe utcnow payload current_user d))"
| "handle py (UpdateConsultation jwt_decode creds cid notes status) d =
     (case get_current_user py jwt_decode creds d of
        Inl e \<Rightarrow> d
      | Inr current_user \<Rightarrow> snd (update_consultation py cid notes status current_user d))"

text \<open>The databases that requests produce from the empty one.\<close>

inductive reachable :: "str_methods \<Rightarrow> db \<Rightarrow> bool" for py :: str_methods where
  start: "reachable py empty_db"
| step: "reachable py d \<Longrightarrow> reachable py (handle py r d)"

text \<open>Every assignment names a registered user whose role is \<open>doctor\<close>.\<close>

definition assigned_to_doctor :: "db \<Rightarrow> bool" where
  "assigned_to_doctor d =
     (\<forall>p \<in> set (patients d).
        case p_assigned_doctor_email p of
          None \<Rightarrow> True
        | Some e \<Rightarrow> (\<exists>u \<in> set (users d). u_email u = e \<and> u_role u = ''doctor''))"

section \<open>The string methods on ASCII\<close>

text \<open>
  On a string of ASCII characters \<open>str.lower\<close> maps \<open>A\<close>..\<open>Z\<close> to \<open>a\<close>..\<open>z\<close>, and the
  white space of \<open>str.strip\<close> and \<open>str.split\<close> is the characters 9 to 13, 28 to 31 and 32.
  \<open>ascii\<close> is these methods; the examples below hand them ASCII strings only.
\<close>

definition ascii_lower_char :: "char \<Rightarrow> char" where
  "ascii_lower_char c =
     (let n = (of_char c :: nat) in if 65 \<le> n \<and> n \<le> 90 then char_of (n + 32) else c)"

definition ascii_lower :: "string \<Rightarrow> string" where
  "ascii_lower s = map ascii_lower_char s"

definition ascii_isspace :: "char \<Rightarrow> bool" where
  "ascii_isspace c =
     (let n = (of_char c :: nat) in (9 \<le> n \<and> n \<le> 13) \<or> (28 \<le> n \<and> n \<le> 32))"

definition ascii_strip :: "string \<Rightarrow> string" where
  "ascii_strip s = rev (dropWhile ascii_isspace (rev (dropWhile ascii_isspace s)))"

text \<open>\<open>s.split()\<close>: the maximal runs of characters that are not white space, in order.\<close>

fun ascii_split_acc :: "string \<Rightarrow> string \<Rightarrow> string list" where
  "ascii_split_acc w [] = (if w = [] then [] else [rev w])"
| "ascii_split_acc w (c # cs) =
     (if ascii_isspace c
      then (if w = [] then ascii_split_acc [] cs else rev w # ascii_split_acc [] cs)
      else ascii_split_acc (c # w) cs)"

definition ascii_split :: "string \<Rightarrow> string list" where
  "ascii_split s = ascii_split_acc [] s"

definition ascii :: str_methods where
  "ascii = \<lparr>lower = ascii_lower, strip = ascii_strip, split = ascii_split\<rparr>"

section \<open>A sample clinic\<close>

definition t0 :: datetime where
  "t0 = \<lparr>year = 2024, month = 3, day = 9, hour = 14, minute = 5, second = 0, microsecond = 0\<rparr>"

definition asha :: User where
  "asha = \<lparr>u_id = 1, u_name = ''Asha'', u_email = ''asha@example.com'',
           u_password_hash = ''#secret1'', u_role = ''sales'', u_created_at = t0\<rparr>"

definition rao :: User where
  "rao = \<lparr>u_id = 2, u_name = ''Dr Rao'', u_email = ''rao@example.com'',
          u_password_hash = ''#secret2'', u_role = ''doctor'', u_created_at = t0\<rparr>"

definition root :: User where
  "root = \<lparr>u_id = 3, u_name = ''Root'', u_email = ''root@example.com'',
           u_password_hash = ''#secret3'', u_role = ''admin'', u_created_at = t0\<rparr>"

definition dev :: User where
  "dev = \<lparr>u_id = 4, u_name = ''Dev'', u_email = ''dev@example.com'',
          u_password_hash = ''#secret4'', u_role = ''sales'', u_created_at = t0\<rparr>"

definition ravi :: Patient where
  "ravi = \<lparr>p_id = 1, p_name = ''Ravi'', p_age = Some 41, p_contact = Some ''+91 98765 43210'',
           p_notes = None, p_created_by = ''asha@example.com'',
           p_assigned_doctor_email = Some ''rao@example.com'', p_created_at = t0\<rparr>"

definition mira :: Patient where
  "mira = \<lparr>p_id = 2, p_name = ''Mira'', p_age = None, p_contact = Some ''+ '',
           p_notes = None, p_created_by = ''asha@example.com'',
           p_assigned_doctor_email = None, p_created_at = t0\<rparr>"

definition visit1 :: Consultation where
  "visit1 = \<lparr>c_id = 1, c_patient_id = 1, c_video_url = ''https://meet.jit.si/Prakvedaa-a1B2c3D4'',
             c_scheduled_at = Some t0, c_created_by = ''asha@example.com'',
             c_status = Some ''pending'', c_doctor_notes = Some ''rest'', c_created_at = t0\<rparr>"

definition visit2 :: Consultation where
  "visit2 = \<lparr>c_id = 2, c_patient_id = 2, c_video_url = ''https://meet.jit.si/Prakvedaa-zzzzzzzz'',
             c_scheduled_at = None, c_created_by = ''asha@example.com'',
             c_status = Some ''pending'', c_doctor_notes = None, c_created_at = t0\<rparr>"

definition clinic :: db where
  "clinic = \<lparr>users = [asha, rao, root], patients = [ravi, mira],
             consultations = [visit1, visit2]\<rparr>"

text \<open>A token decoder under which a token is its own subject, and bearer credentials.\<close>

definition token_is_email :: "string \<Rightarrow> jwt_result" where
  "token_is_email t = Payload (Some t)"

definition bearer :: "string \<Rightarrow> HTTPAuthorizationCredentials option" where
  "bearer t = Some \<lparr>scheme = ''Bearer'', credentials = t\<rparr>"

text \<open>A password hash that prefixes \<open>#\<close>, its check, and opaque tokens.\<close>

definition hash_demo :: "string \<Rightarrow> string" where
  "hash_demo pw = CHR ''#'' # pw"



text \<open>The first requests of the clinic: two registrations, a patient and the assignment.\<close>

definition first_day :: "request list" where
  "first_day =
     [Register hash_demo t0
        \<lparr>ru_name = ''Asha'', ru_email = ''Asha@Example.com'', ru_password = ''secret1'',
           ru_role = R_sales\<rparr>,
      Register hash_demo t0
        \<lparr>ru_name = ''Dr Rao'', ru_email = ''rao@example.com'', ru_password = ''secret2'',
           ru_role = R_doctor\<rparr>,
      CreatePatient token_is_email (bearer ''asha@example.com'') t0
        \<lparr>pc_name = ''Ravi'', pc_age = Some 41, pc_contact = Some ''+91 98765 43210'',
           pc_notes = None\<rparr>,
      AssignPatient token_is_email (bearer ''Bearer asha@example.com'')
        \<lparr>ap_patient_id = 1, ap_doctor_email = '' Rao@Example.com''\<rparr>]"

text \<open>Three link requests: with a phone of the request's own, for the first consultation,
  and for the second.\<close>

definition with_phone :: ConsultationShareRequest where
  "with_phone = \<lparr>consultation_id = 1, phone_e164 = Some ''4915112345678''\<rparr>"

definition for_visit1 :: ConsultationShareRequest where
  "for_visit1 = \<lparr>consultation_id = 1, phone_e164 = None\<rparr>"

definition for_visit2 :: ConsultationShareRequest where
  "for_visit2 = \<lparr>consultation_id = 2, phone_e164 = Some []\<rparr>"

definition visit1_text :: string where
  "visit1_text = ''Hello+Ravi%2C+your+video+consultation+is+scheduled.%0ALink%3A+https%3A%2F%2Fmeet.jit.si%2FPrakvedaa-a1B2c3D4%0ADoctor%3A+rao%40example.com%0ATime%3A+2024-03-09T14%3A05%3A00''"

text \<open>The requests that build the sample clinic.\<close>

definition history :: "request list" where
  "history = first_day @
     [Register hash_demo t0
        \<lparr>ru_name = ''Root'', ru_email = ''root@example.com'', ru_password = ''secret3'',
           ru_role = R_admin\<rparr>,
      CreatePatient token_is_email (bearer ''asha@example.com'') t0
        \<lparr>pc_name = ''Mira'', pc_age = None, pc_contact = Some ''+ '', pc_notes = None\<rparr>,
      ScheduleConsultation token_is_email (bearer ''asha@example.com'') ''a1B2c3D4'' t0
        \<lparr>sc_patient_id = 1, sc_scheduled_at = Some t0\<rparr>,
      ScheduleConsultation token_is_email (bearer ''asha@example.com'') ''zzzzzzzz'' t0
        \<lparr>sc_patient_id = 2, sc_scheduled_at = None\<rparr>,
      UpdateConsultation token_is_email (bearer ''rao@example.com'') 1 (Some ''rest '') None]"

section \<open>Properties\<close>

subsection \<open>Ordering of query results\<close>

lemma order_by_desc_set: "set (order_by_desc k xs) = set xs"
  by (simp add: order_by_desc_def)

lemma order_by_desc_mset: "mset (order_by_desc k xs) = mset xs"
  by (simp add: order_by_desc_def)

lemma order_by_desc_sorted: "sorted_wrt (\<lambda>a b. k b \<le> k a) (order_by_desc k xs)"
proof -
  have "sorted (map (\<lambda>x. - k x) (order_by_desc k xs))"
    by (simp add: order_by_desc_def)
  then show ?thesis
    by (simp add: sorted_map)
qed

subsection \<open>Listing patients\<close>

text \<open>
  C2. Listing patients: a sales caller gets every patient of the registry, a doctor gets
  exactly the patients whose \<open>assigned_doctor_email\<close> is the doctor's own email (so never an
  unassigned patient, nor one assigned to somebody else), both newest id first; a caller of
  any other role gets the 403 error \<open>Role not permitted\<close>.
\<close>

theorem list_patients_by_role:
  "(u_role cu = ''sales'' \<longrightarrow>
      (\<exists>ps. list_patients cu d = Inr ps \<and> mset ps = mset (patients d)
            \<and> sorted_wrt (\<lambda>a b. p_id b \<le> p_id a) ps))
   \<and> (u_role cu = ''doctor'' \<longrightarrow>
      (\<exists>ps. list_patients cu d = Inr ps
            \<and> mset ps = filter_mset (\<lambda>p. p_assigned_doctor_email p = Some (u_email cu))
                           (mset (patients d))
            \<and> (\<forall>p \<in> set ps. p_assigned_doctor_email p \<noteq> None
                             \<and> p_assigned_doctor_email p = Some (u_email cu))
            \<and> sorted_wrt (\<lambda>a b. p_id b \<le> p_id a) ps))
   \<and> (u_role cu \<noteq> ''sales'' \<and> u_role cu \<noteq> ''doctor'' \<longrightarrow>
      list_patients cu d = Inl (HTTPException 403 ''Role not permitted''))"
  by (simp add: list_patients_def order_by_desc_mset order_by_desc_sorted order_by_desc_set)

lemma asha_sales: "u_role asha = ''sales''" by (simp add: asha_def)
lemma rao_doctor: "u_role rao = ''doctor''" by (simp add: rao_def)
lemma root_admin: "u_role root \<noteq> ''sales'' \<and> u_role root \<noteq> ''doctor''" by (simp add: root_def)

text \<open>
  In the sample clinic the sales user sees both patients, the doctor sees the one assigned to
  them, and the admin is refused.
\<close>

theorem list_patients_by_role_witness:
  "u_role asha = ''sales'' \<and> u_role rao = ''doctor''
   \<and> u_role root \<noteq> ''sales'' \<and> u_role root \<noteq> ''doctor''
   \<and> list_patients asha clinic = Inr [mira, ravi]
   \<and> list_patients rao clinic = Inr [ravi]
   \<and> list_patients root clinic = Inl (HTTPException 403 ''Role not permitted'')"
proof -
  have a: "list_patients asha clinic = Inr [mira, ravi]" by code_simp
  have b: "list_patients rao clinic = Inr [ravi]" by code_simp
  show ?thesis
    using list_patients_by_role [of asha clinic] list_patients_by_role [of rao clinic]
      list_patients_by_role [of root clinic] asha_sales rao_doctor root_admin a b
    by simp
qed

subsection \<open>Listing users\<close>

lemma get_current_user_errors:
  "get_current_user py jd creds d = Inl e
     \<Longrightarrow> e = IndexError \<or> (\<exists>detail. e = HTTPException 401 detail)"
  by (auto simp: get_current_user_def Let_def
      split: option.splits if_splits sum.splits list.splits jwt_result.splits)

text \<open>
  \<open>IndexError\<close> needs a stripped token that starts with \<open>bearer\<close> and a space in lower case
  and yet splits into no word. No such string exists for string methods like Python's, and
  then every error of \<open>get_current_user\<close> is a 401.
\<close>

lemma get_current_user_only_401:
  assumes "\<And>s. startswith (lower py (strip py s)) ''bearer '' \<Longrightarrow> split py (strip py s) \<noteq> []"
    and "get_current_user py jd creds d = Inl e"
  shows "\<exists>detail. e = HTTPException 401 detail"
  using assms(2) assms(1)
  by (auto simp: get_current_user_def Let_def
      split: option.splits if_splits sum.splits list.splits jwt_result.splits)

lemma ascii_split_acc_pending: "w \<noteq> [] \<Longrightarrow> ascii_split_acc w cs \<noteq> []"
  by (induction cs arbitrary: w) auto

lemma ascii_isspace_lower_char: "ascii_isspace c \<Longrightarrow> ascii_lower_char c = c"
  by (auto simp: ascii_isspace_def ascii_lower_char_def Let_def)

lemma b_not_space: "\<not> ascii_isspace CHR ''b''"
  by code_simp

lemma ascii_bearer_split:
  assumes "startswith (lower ascii s) ''bearer ''"
  shows "split ascii s \<noteq> []"
proof (cases s)
  case Nil
  with assms show ?thesis
    by (simp add: startswith_def ascii_def ascii_lower_def)
next
  case (Cons c cs)
  with assms have "ascii_lower_char c = CHR ''b''"
    by (simp add: startswith_def ascii_def ascii_lower_def)
  with ascii_isspace_lower_char [of c] b_not_space have "\<not> ascii_isspace c" by auto
  with Cons show ?thesis
    by (simp add: ascii_def ascii_split_def ascii_split_acc_pending)
qed

lemma get_current_user_ascii_only_401:
  "get_current_user ascii jd creds d = Inl e \<Longrightarrow> \<exists>detail. e = HTTPException 401 detail"
  by (rule get_current_user_only_401 [of ascii]) (rule ascii_bearer_split)

lemma get_current_user_row:
  "get_current_user py jd creds d = Inr u \<Longrightarrow> u \<in> set (users d)"
  by (auto simp: get_current_user_def Let_def find_Some_iff
      split: option.splits if_splits sum.splits list.splits jwt_result.splits)

text \<open>
  C10. Listing users needs only credentials that resolve to an existing user: whatever the
  credentials, the request never fails with a 403 error, and for a caller of any role it
  returns all registered users, restricted to one role when the query parameter is given and
  non-empty, by descending id.
\<close>

theorem list_users_any_role:
  "(\<forall>detail. GET_users py jd creds rf d \<noteq> Inl (HTTPException 403 detail))
   \<and> (get_current_user py jd creds d = Inr cu \<longrightarrow>
        (\<exists>us. GET_users py jd creds rf d = Inr us
            \<and> mset us = (if truthy rf then filter_mset (\<lambda>u. Some (u_role u) = rf) (mset (users d))
                         else mset (users d))
            \<and> sorted_wrt (\<lambda>a b. u_id b \<le> u_id a) us))"
proof (intro conjI allI impI)
  fix detail
  show "GET_users py jd creds rf d \<noteq> Inl (HTTPException 403 detail)"
  proof (cases "get_current_user py jd creds d")
    case (Inl e)
    with get_current_user_errors [OF Inl] show ?thesis
      by (auto simp: GET_users_def)
  next
    case (Inr u)
    then show ?thesis by (simp add: GET_users_def)
  qed
next
  assume "get_current_user py jd creds d = Inr cu"
  then show "\<exists>us. GET_users py jd creds rf d = Inr us
            \<and> mset us = (if truthy rf then filter_mset (\<lambda>u. Some (u_role u) = rf) (mset (users d))
                         else mset (users d))
            \<and> sorted_wrt (\<lambda>a b. u_id b \<le> u_id a) us"
    by (simp add: GET_users_def list_users_def order_by_desc_mset order_by_desc_sorted)
qed

text \<open>
  The admin of the sample clinic lists every user, the doctor lists the sales users, and an
  unknown subject is a 401 error.
\<close>

theorem list_users_any_role_witness:
  "get_current_user ascii token_is_email (bearer ''root@example.com'') clinic = Inr root
   \<and> GET_users ascii token_is_email (bearer ''root@example.com'') None clinic = Inr [root, rao, asha]
   \<and> GET_users ascii token_is_email (bearer ''rao@example.com'') (Some ''sales'') clinic = Inr [asha]
   \<and> GET_users ascii token_is_email (bearer ''nobody@example.com'') None clinic
       = Inl (HTTPException 401 ''User not found'')"
proof -
  have a: "get_current_user ascii token_is_email (bearer ''root@example.com'') clinic = Inr root"
    by code_simp
  have b: "GET_users ascii token_is_email (bearer ''root@example.com'') None clinic = Inr [root, rao, asha]"
    by code_simp
  have c: "GET_users ascii token_is_email (bearer ''rao@example.com'') (Some ''sales'') clinic = Inr [asha]"
    by code_simp
  have e: "GET_users ascii token_is_email (bearer ''nobody@example.com'') None clinic
       = Inl (HTTPException 401 ''User not found'')"
    by code_simp
  show ?thesis
    using list_users_any_role [of ascii token_is_email "bearer ''root@example.com''" None clinic root]
      a b c e
    by simp
qed

subsection \<open>The two link handlers\<close>

text \<open>
  C9. \<open>whatsapp_send_direct\<close> and \<open>whatsapp_link\<close> are the same function: for every
  database, request and caller they return the same link or the same error.
\<close>

theorem whatsapp_send_direct_eq_link:
  "whatsapp_send_direct payload current_user d = whatsapp_link payload current_user d"
  by (simp add: whatsapp_send_direct_def whatsapp_link_def)

text \<open>
  The link for the first consultation of the sample clinic, and a missing consultation.
\<close>

theorem whatsapp_send_direct_eq_link_witness:
  "whatsapp_send_direct \<lparr>consultation_id = 1, phone_e164 = None\<rparr> rao clinic
     = Inr \<lparr>wa_link = ''https://wa.me/919876543210?text=Hello+Ravi%2C+your+video+consultation+is+scheduled.%0ALink%3A+https%3A%2F%2Fmeet.jit.si%2FPrakvedaa-a1B2c3D4%0ADoctor%3A+rao%40example.com%0ATime%3A+2024-03-09T14%3A05%3A00''\<rparr>
   \<and> whatsapp_send_direct \<lparr>consultation_id = 9, phone_e164 = None\<rparr> rao clinic
     = Inl (HTTPException 404 ''Consultation not found'')"
proof -
  have a: "whatsapp_link \<lparr>consultation_id = 1, phone_e164 = None\<rparr> rao clinic
     = Inr \<lparr>wa_link = ''https://wa.me/919876543210?text=Hello+Ravi%2C+your+video+consultation+is+scheduled.%0ALink%3A+https%3A%2F%2Fmeet.jit.si%2FPrakvedaa-a1B2c3D4%0ADoctor%3A+rao%40example.com%0ATime%3A+2024-03-09T14%3A05%3A00''\<rparr>"
    by code_simp
  have b: "whatsapp_link \<lparr>consultation_id = 9, phone_e164 = None\<rparr> rao clinic
     = Inl (HTTPException 404 ''Consultation not found'')"
    by code_simp
  show ?thesis
    using whatsapp_send_direct_eq_link [of "\<lparr>consultation_id = 1, phone_e164 = None\<rparr>" rao clinic]
      whatsapp_send_direct_eq_link [of "\<lparr>consultation_id = 9, phone_e164 = None\<rparr>" rao clinic] a b
    by simp
qed

subsection \<open>Authentication\<close>



subsection \<open>Registration\<close>

lemma register_email_taken:
  "\<exists>u \<in> set (users (snd (register py h t p d))). u_email u = strip py (lower py (ru_email p))"
  by (auto simp: register_def Let_def)

lemma register_rejects_taken:
  "\<exists>u \<in> set (users d). u_email u = strip py (lower py (ru_email p))
     \<Longrightarrow> register py h t p d = (Inl (HTTPException 400 ''Email already registered''), d)"
  by (simp add: register_def Let_def)

text \<open>
  C8. Of two registrations whose emails are equal after \<open>lower\<close> and \<open>strip\<close>, whatever
  these two methods do, the second fails with the duplicate-email error (status 400, \<open>Email already registered\<close>) and
  leaves the database, so the user table, as the first one left it.
\<close>

theorem register_twice_conflict:
  assumes "strip py (lower py (ru_email first)) = strip py (lower py (ru_email again))"
  shows "register py h' t' again (snd (register py h t first d))
           = (Inl (HTTPException 400 ''Email already registered''), snd (register py h t first d))"
proof -
  have "\<exists>u \<in> set (users (snd (register py h t first d))). u_email u = strip py (lower py (ru_email again))"
    using register_email_taken [of py h t first d] assms by simp
  then show ?thesis
    by (rule register_rejects_taken)
qed

text \<open>
  Registering \<open>Dev@Example.com\<close> in the sample clinic, and then \<open>dev@example.COM\<close> with
  spaces around it.
\<close>

theorem register_twice_conflict_witness:
  "strip ascii (lower ascii (ru_email \<lparr>ru_name = ''Dev'', ru_email = ''Dev@Example.com'', ru_password = ''secret4'', ru_role = R_sales\<rparr>))
     = strip ascii (lower ascii (ru_email \<lparr>ru_name = ''Dev Two'', ru_email = '' dev@example.COM '', ru_password = ''secret5'', ru_role = R_doctor\<rparr>))
   \<and> register ascii hash_demo t0 \<lparr>ru_name = ''Dev'', ru_email = ''Dev@Example.com'', ru_password = ''secret4'', ru_role = R_sales\<rparr> clinic
       = (Inr dev, clinic\<lparr>users := [asha, rao, root, dev]\<rparr>)
   \<and> register ascii hash_demo t0 \<lparr>ru_name = ''Dev Two'', ru_email = '' dev@example.COM '', ru_password = ''secret5'', ru_role = R_doctor\<rparr>
         (clinic\<lparr>users := [asha, rao, root, dev]\<rparr>)
       = (Inl (HTTPException 400 ''Email already registered''), clinic\<lparr>users := [asha, rao, root, dev]\<rparr>)"
proof -
  have h: "strip ascii (lower ascii (ru_email \<lparr>ru_name = ''Dev'', ru_email = ''Dev@Example.com'', ru_password = ''secret4'', ru_role = R_sales\<rparr>))
     = strip ascii (lower ascii (ru_email \<lparr>ru_name = ''Dev Two'', ru_email = '' dev@example.COM '', ru_password = ''secret5'', ru_role = R_doctor\<rparr>))"
    by code_simp
  have r: "register ascii hash_demo t0 \<lparr>ru_name = ''Dev'', ru_email = ''Dev@Example.com'', ru_password = ''secret4'', ru_role = R_sales\<rparr> clinic
       = (Inr dev, clinic\<lparr>users := [asha, rao, root, dev]\<rparr>)"
    by code_simp
  show ?thesis
    using register_twice_conflict
        [OF h, where h' = hash_demo and t' = t0 and h = hash_demo and t = t0 and d = clinic] h r
    by simp
qed

subsection \<open>Assignment\<close>





subsection \<open>Partial updates\<close>

lemma find_map_keeps:
  "(\<And>x. P (g x) = P x) \<Longrightarrow> find P (map g xs) = map_option g (find P xs)"
  by (induction xs) auto

lemma find_Some_holds: "find P xs = Some x \<Longrightarrow> P x"
  by (auto simp: find_Some_iff)

lemma update_consultation_permitted:
  assumes "find (\<lambda>c. c_id c = cid) (consultations d) = Some c"
    and "u_role cu \<noteq> ''doctor''
         \<or> (\<exists>p. find (\<lambda>p. p_id p = c_patient_id c) (patients d) = Some p
                 \<and> p_assigned_doctor_email p = Some (u_email cu))"
  shows "update_consultation py cid notes status cu d =
           (Inr (c\<lparr>c_doctor_notes := (case notes of None \<Rightarrow> c_doctor_notes c
                                      | Some n \<Rightarrow> if n \<noteq> [] then Some (strip py n)
                                                  else c_doctor_notes c),
                  c_status := (case status of None \<Rightarrow> c_status c | Some s \<Rightarrow> Some (lower py s))\<rparr>),
            d\<lparr>consultations :=
                 map (\<lambda>x. if c_id x = cid
                           then x\<lparr>c_doctor_notes := (case notes of None \<Rightarrow> c_doctor_notes c
                                                     | Some n \<Rightarrow> if n \<noteq> [] then Some (strip py n)
                                                                 else c_doctor_notes c),
                                 c_status := (case status of None \<Rightarrow> c_status c
                                              | Some s \<Rightarrow> Some (lower py s))\<rparr>
                           else x)
                   (consultations d)\<rparr>)"
proof -
  have "c_id c = cid" using find_Some_holds [OF assms(1)] .
  with assms show ?thesis
    by (auto simp: update_consultation_def Let_def)
qed

lemma stored_after_update:
  assumes "find (\<lambda>c. c_id c = cid) xs = Some c"
  shows "find (\<lambda>c. c_id c = cid) (map (\<lambda>x. if c_id x = cid then x\<lparr>c_doctor_notes := n, c_status := s\<rparr> else x) xs)
           = Some (c\<lparr>c_doctor_notes := n, c_status := s\<rparr>)"
proof -
  have "c_id c = cid" using find_Some_holds [OF assms] .
  have "find (\<lambda>c. c_id c = cid) (map (\<lambda>x. if c_id x = cid then x\<lparr>c_doctor_notes := n, c_status := s\<rparr> else x) xs)
          = map_option (\<lambda>x. if c_id x = cid then x\<lparr>c_doctor_notes := n, c_status := s\<rparr> else x)
              (find (\<lambda>c. c_id c = cid) xs)"
    by (rule find_map_keeps) simp
  with assms \<open>c_id c = cid\<close> show ?thesis by simp
qed

text \<open>
  C5. For a consultation that exists and a caller the handler lets through (any caller who
  is not a doctor, and the doctor to whom the consultation's patient is assigned): an
  update that gives only \<open>status\<close> returns and stores the consultation with its
  \<open>doctor_notes\<close> as they were, an update that gives only \<open>notes\<close> returns and stores it with
  its \<open>status\<close> as it was, and an update that gives neither returns and stores the
  consultation as it was.
\<close>

theorem update_consultation_partial:
  assumes "find (\<lambda>c. c_id c = cid) (consultations d) = Some c"
    and "u_role cu \<noteq> ''doctor''
         \<or> (\<exists>p. find (\<lambda>p. p_id p = c_patient_id c) (patients d) = Some p
                 \<and> p_assigned_doctor_email p = Some (u_email cu))"
  shows "(\<exists>c' d'. update_consultation py cid None (Some s) cu d = (Inr c', d')
            \<and> c_doctor_notes c' = c_doctor_notes c
            \<and> find (\<lambda>x. c_id x = cid) (consultations d') = Some c')
         \<and> (\<exists>c' d'. update_consultation py cid (Some n) None cu d = (Inr c', d')
            \<and> c_status c' = c_status c
            \<and> find (\<lambda>x. c_id x = cid) (consultations d') = Some c')
         \<and> (\<exists>d'. update_consultation py cid None None cu d = (Inr c, d')
            \<and> find (\<lambda>x. c_id x = cid) (consultations d') = Some c)"
  by (simp add: update_consultation_permitted [OF assms] stored_after_update [OF assms(1)])

lemma asha_permitted:
  "\<not> (u_role asha = ''doctor'' \<and> p_assigned_doctor_email pt \<noteq> Some (u_email asha))"
  by (simp add: asha_def)

lemma clinic_visit1:
  "find (\<lambda>c. c_id c = 1) (consultations clinic) = Some visit1"
  by code_simp

lemma clinic_visit1_patient:
  "find (\<lambda>p. p_id p = c_patient_id visit1) (patients clinic) = Some ravi"
  by code_simp

text \<open>
  The assigned doctor of the sample clinic completes the first consultation, then writes
  notes, then sends an empty update.
\<close>

theorem update_consultation_partial_witness:
  "find (\<lambda>c. c_id c = 1) (consultations clinic) = Some visit1
   \<and> find (\<lambda>p. p_id p = c_patient_id visit1) (patients clinic) = Some ravi
   \<and> p_assigned_doctor_email ravi = Some (u_email rao)
   \<and> update_consultation ascii 1 None (Some ''Completed'') rao clinic
       = (Inr (visit1\<lparr>c_status := Some ''completed''\<rparr>),
          clinic\<lparr>consultations := [visit1\<lparr>c_status := Some ''completed''\<rparr>, visit2]\<rparr>)
   \<and> update_consultation ascii 1 (Some ''  take rest '') None rao clinic
       = (Inr (visit1\<lparr>c_doctor_notes := Some ''take rest''\<rparr>),
          clinic\<lparr>consultations := [visit1\<lparr>c_doctor_notes := Some ''take rest''\<rparr>, visit2]\<rparr>)
   \<and> update_consultation ascii 1 None None rao clinic = (Inr visit1, clinic)"
proof -
  have assigned: "p_assigned_doctor_email ravi = Some (u_email rao)"
    by (simp add: ravi_def rao_def)
  have "\<exists>p. find (\<lambda>p. p_id p = c_patient_id visit1) (patients clinic) = Some p
             \<and> p_assigned_doctor_email p = Some (u_email rao)"
    by (rule exI [of _ ravi]) (rule conjI [OF clinic_visit1_patient assigned])
  then have permitted: "u_role rao \<noteq> ''doctor''
         \<or> (\<exists>p. find (\<lambda>p. p_id p = c_patient_id visit1) (patients clinic) = Some p
                 \<and> p_assigned_doctor_email p = Some (u_email rao))"
    by (rule disjI2)
  have a: "update_consultation ascii 1 None (Some ''Completed'') rao clinic
       = (Inr (visit1\<lparr>c_status := Some ''completed''\<rparr>),
          clinic\<lparr>consultations := [visit1\<lparr>c_status := Some ''completed''\<rparr>, visit2]\<rparr>)"
    by code_simp
  have b: "update_consultation ascii 1 (Some ''  take rest '') None rao clinic
       = (Inr (visit1\<lparr>c_doctor_notes := Some ''take rest''\<rparr>),
          clinic\<lparr>consultations := [visit1\<lparr>c_doctor_notes := Some ''take rest''\<rparr>, visit2]\<rparr>)"
    by code_simp
  have c: "update_consultation ascii 1 None None rao clinic = (Inr visit1, clinic)"
    by code_simp
  show ?thesis
    using update_consultation_partial
        [OF clinic_visit1 permitted, where py = ascii and s = "''Completed''"
           and n = "''  take rest ''"]
      clinic_visit1 clinic_visit1_patient assigned a b c
    by simp
qed

subsection \<open>The phone of a WhatsApp link\<close>

lemma replace_both:
  "replace_with_empty (replace_with_empty c CHR ''+'') CHR '' ''
     = filter (\<lambda>x. x \<noteq> CHR ''+'' \<and> x \<noteq> CHR '' '') c"
  by (auto simp: replace_with_empty_def intro: filter_cong)

text \<open>
  C7. For an existing consultation with its patient and a caller the handler lets through,
  with \<open>encoded\<close> the URL-encoded message: a non-empty \<open>phone_e164\<close> of the request is the
  phone of the link; without one (absent or empty), the phone is the patient's contact with
  every \<open>+\<close> and every space removed; and when that leaves nothing, or the patient has no
  contact, the handler raises 400 \<open>No phone provided and patient.contact empty\<close> and
  returns no link.
\<close>

theorem whatsapp_link_phone:
  assumes "find (\<lambda>c. c_id c = consultation_id payload) (consultations d) = Some cons"
    and "find (\<lambda>p. p_id p = c_patient_id cons) (patients d) = Some patient"
    and "\<not> (u_role cu = ''doctor'' \<and> p_assigned_doctor_email patient \<noteq> Some (u_email cu))"
    and "encoded = quote_plus
           (''Hello '' @ p_name patient @ '', your video consultation is scheduled.'' @ [CHR 0x0A]
            @ ''Link: '' @ c_video_url cons @ [CHR 0x0A]
            @ ''Doctor: '' @ or_else (p_assigned_doctor_email patient) ''TBD'' @ [CHR 0x0A]
            @ ''Time: '' @ (case c_scheduled_at cons of Some t \<Rightarrow> isoformat t | None \<Rightarrow> ''Now''))"
  shows "(\<forall>ph. phone_e164 payload = Some ph \<and> ph \<noteq> [] \<longrightarrow>
            whatsapp_link payload cu d
              = Inr \<lparr>wa_link = ''https://wa.me/'' @ ph @ ''?text='' @ encoded\<rparr>)
         \<and> (phone_e164 payload = None \<or> phone_e164 payload = Some [] \<longrightarrow>
              (\<forall>c. p_contact patient = Some c
                    \<and> filter (\<lambda>x. x \<noteq> CHR ''+'' \<and> x \<noteq> CHR '' '') c \<noteq> [] \<longrightarrow>
                 whatsapp_link payload cu d
                   = Inr \<lparr>wa_link = ''https://wa.me/''
                                    @ filter (\<lambda>x. x \<noteq> CHR ''+'' \<and> x \<noteq> CHR '' '') c
                                    @ ''?text='' @ encoded\<rparr>)
              \<and> (p_contact patient = None
                  \<or> (\<exists>c. p_contact patient = Some c
                         \<and> filter (\<lambda>x. x \<noteq> CHR ''+'' \<and> x \<noteq> CHR '' '') c = []) \<longrightarrow>
                 whatsapp_link payload cu d
                   = Inl (HTTPException 400 ''No phone provided and patient.contact empty'')))"
  using assms
  by (auto simp: whatsapp_link_def Let_def truthy_def replace_both split: option.splits)

lemma clinic_visit1_shared:
  "find (\<lambda>c. c_id c = consultation_id with_phone) (consultations clinic) = Some visit1"
  "find (\<lambda>c. c_id c = consultation_id for_visit1) (consultations clinic) = Some visit1"
  by code_simp+

lemma clinic_visit2_shared:
  "find (\<lambda>c. c_id c = consultation_id for_visit2) (consultations clinic) = Some visit2"
  by code_simp

lemma clinic_visit2_patient:
  "find (\<lambda>p. p_id p = c_patient_id visit2) (patients clinic) = Some mira"
  by code_simp

lemma visit1_text_encoded:
  "visit1_text = quote_plus
     (''Hello '' @ p_name ravi @ '', your video consultation is scheduled.'' @ [CHR 0x0A]
      @ ''Link: '' @ c_video_url visit1 @ [CHR 0x0A]
      @ ''Doctor: '' @ or_else (p_assigned_doctor_email ravi) ''TBD'' @ [CHR 0x0A]
      @ ''Time: '' @ (case c_scheduled_at visit1 of Some t \<Rightarrow> isoformat t | None \<Rightarrow> ''Now''))"
  by code_simp

text \<open>
  In the sample clinic: the request's own phone wins over the contact of the patient; the
  contact \<open>+91 98765 43210\<close> gives the phone \<open>919876543210\<close>; a contact of a \<open>+\<close> and a
  space, with an empty phone in the request, gives the 400 error.
\<close>

theorem whatsapp_link_phone_witness:
  "phone_e164 with_phone = Some ''4915112345678''
   \<and> whatsapp_link with_phone asha clinic
       = Inr \<lparr>wa_link = ''https://wa.me/4915112345678?text='' @ visit1_text\<rparr>
   \<and> phone_e164 for_visit1 = None \<and> p_contact ravi = Some ''+91 98765 43210''
   \<and> whatsapp_link for_visit1 asha clinic
       = Inr \<lparr>wa_link = ''https://wa.me/919876543210?text='' @ visit1_text\<rparr>
   \<and> phone_e164 for_visit2 = Some [] \<and> p_contact mira = Some ''+ ''
   \<and> whatsapp_link for_visit2 asha clinic
       = Inl (HTTPException 400 ''No phone provided and patient.contact empty'')"
proof -
  have a: "phone_e164 with_phone = Some ''4915112345678''" "''4915112345678'' \<noteq> []"
    by (simp_all add: with_phone_def)
  have b: "phone_e164 for_visit1 = None" "p_contact ravi = Some ''+91 98765 43210''"
    "filter (\<lambda>x. x \<noteq> CHR ''+'' \<and> x \<noteq> CHR '' '') ''+91 98765 43210'' = ''919876543210''"
    by (simp_all add: for_visit1_def ravi_def)
  have b4: "filter (\<lambda>x. x \<noteq> CHR ''+'' \<and> x \<noteq> CHR '' '') ''+91 98765 43210'' \<noteq> []"
    by simp
  have c: "phone_e164 for_visit2 = Some []" "p_contact mira = Some ''+ ''"
    "filter (\<lambda>x. x \<noteq> CHR ''+'' \<and> x \<noteq> CHR '' '') ''+ '' = []"
    by (simp_all add: for_visit2_def mira_def)
  note t1 = whatsapp_link_phone
      [OF clinic_visit1_shared(1) clinic_visit1_patient asha_permitted visit1_text_encoded]
  note t2 = whatsapp_link_phone
      [OF clinic_visit1_shared(2) clinic_visit1_patient asha_permitted visit1_text_encoded]
  note t3 = whatsapp_link_phone
      [OF clinic_visit2_shared clinic_visit2_patient asha_permitted refl]
  have r1: "whatsapp_link with_phone asha clinic
       = Inr \<lparr>wa_link = ''https://wa.me/'' @ ''4915112345678'' @ ''?text='' @ visit1_text\<rparr>"
    by (rule t1 [THEN conjunct1, THEN spec, THEN mp, OF conjI [OF a]])
  have r2: "whatsapp_link for_visit1 asha clinic
       = Inr \<lparr>wa_link = ''https://wa.me/''
                @ filter (\<lambda>x. x \<noteq> CHR ''+'' \<and> x \<noteq> CHR '' '') ''+91 98765 43210''
                @ ''?text='' @ visit1_text\<rparr>"
    by (rule t2 [THEN conjunct2, THEN mp, OF disjI1 [OF b(1)], THEN conjunct1, THEN spec,
          THEN mp, OF conjI [OF b(2) b4]])
  have "\<exists>k. p_contact mira = Some k \<and> filter (\<lambda>x. x \<noteq> CHR ''+'' \<and> x \<noteq> CHR '' '') k = []"
    by (rule exI [of _ "''+ ''"]) (rule conjI [OF c(2) c(3)])
  then have r3: "whatsapp_link for_visit2 asha clinic
       = Inl (HTTPException 400 ''No phone provided and patient.contact empty'')"
    by (rule t3 [THEN conjunct2, THEN mp, OF disjI2 [OF c(1)], THEN conjunct2, THEN mp,
          OF disjI2])
  show ?thesis
    using r1 r2 r3 a b c by simp
qed

subsection \<open>Assignments name doctors\<close>

lemma find_Some_member: "find P xs = Some x \<Longrightarrow> x \<in> set xs"
  by (auto simp: find_Some_iff)

lemma register_keeps_assigned:
  "assigned_to_doctor d \<Longrightarrow> assigned_to_doctor (snd (register py h t p d))"
  by (auto simp: register_def Let_def assigned_to_doctor_def split: option.splits)

lemma create_patient_keeps_assigned:
  "assigned_to_doctor d \<Longrightarrow> assigned_to_doctor (snd (create_patient t p cu d))"
  by (auto simp: create_patient_def Let_def assigned_to_doctor_def split: option.splits)

lemma assign_patient_keeps_assigned:
  assumes "assigned_to_doctor d"
  shows "assigned_to_doctor (snd (assign_patient py p cu d))"
proof (cases "find (\<lambda>u. u_email u = strip py (lower py (ap_doctor_email p))) (users d)")
  case None
  with assms show ?thesis
    by (simp add: assign_patient_def split: option.splits)
next
  case (Some doc)
  show ?thesis
  proof (cases "u_role doc = ''doctor''")
    case False
    with Some assms show ?thesis
      by (simp add: assign_patient_def split: option.splits)
  next
    case True
    from Some have "doc \<in> set (users d)" by (rule find_Some_member)
    with True have named: "\<exists>u \<in> set (users d). u_email u = u_email doc \<and> u_role u = ''doctor''"
      by blast
    have "assigned_to_doctor
            (d\<lparr>patients := map (\<lambda>x. if p_id x = k
                                     then x\<lparr>p_assigned_doctor_email := Some (u_email doc)\<rparr>
                                     else x)
                               (patients d)\<rparr>)" for k
      using assms named by (auto simp: assigned_to_doctor_def split: option.splits)
    with Some True assms show ?thesis
      by (simp add: assign_patient_def split: option.splits)
  qed
qed

lemma schedule_consultation_keeps_assigned:
  "assigned_to_doctor d \<Longrightarrow> assigned_to_doctor (snd (schedule_consultation k t p cu d))"
  by (auto simp: schedule_consultation_def Let_def assigned_to_doctor_def split: option.splits)

lemma update_consultation_keeps_assigned:
  "assigned_to_doctor d \<Longrightarrow> assigned_to_doctor (snd (update_consultation py cid n s cu d))"
  by (auto simp: update_consultation_def Let_def assigned_to_doctor_def split: option.splits)

lemma handle_keeps_assigned:
  "assigned_to_doctor d \<Longrightarrow> assigned_to_doctor (handle py r d)"
  by (cases r)
    (simp_all add: register_keeps_assigned create_patient_keeps_assigned
       assign_patient_keeps_assigned schedule_consultation_keeps_assigned
       update_consultation_keeps_assigned split: sum.splits)

lemma handle_keeps_users: "\<exists>new. users (handle py r d) = users d @ new"
  by (cases r)
    (auto simp: register_def create_patient_def assign_patient_def schedule_consultation_def
       update_consultation_def Let_def split: sum.splits option.splits)

lemma reachable_assigned: "reachable py d \<Longrightarrow> assigned_to_doctor d"
proof (induction rule: reachable.induct)
  case start
  show ?case by (simp add: assigned_to_doctor_def empty_db_def)
next
  case (step d r)
  then show ?case by (simp add: handle_keeps_assigned)
qed

lemma reachable_fold: "reachable py d \<Longrightarrow> reachable py (fold (handle py) rs d)"
  by (induction rs arbitrary: d) (simp_all add: reachable.step)

text \<open>
  C3. In every database that requests produce from the empty one, every patient whose
  \<open>assigned_doctor_email\<close> is set names a registered user whose role is \<open>doctor\<close>. Every
  request keeps it so, and every request leaves the rows of the user table as they were,
  adding rows at most: no request deletes a user or changes a role.
\<close>

theorem reachable_assigned_to_doctor:
  assumes "reachable py d"
  shows "assigned_to_doctor d
         \<and> (\<forall>r. assigned_to_doctor (handle py r d) \<and> (\<exists>new. users (handle py r d) = users d @ new))"
  using reachable_assigned [OF assms] handle_keeps_assigned handle_keeps_users by blast

lemma first_day_db:
  "fold (handle ascii) first_day empty_db = \<lparr>users = [asha, rao], patients = [ravi], consultations = []\<rparr>"
  by code_simp

text \<open>
  The database after the first four requests of the clinic: the one patient is assigned to
  the registered doctor.
\<close>

theorem reachable_assigned_to_doctor_witness:
  "reachable ascii (fold (handle ascii) first_day empty_db)
   \<and> fold (handle ascii) first_day empty_db
       = \<lparr>users = [asha, rao], patients = [ravi], consultations = []\<rparr>
   \<and> p_assigned_doctor_email ravi = Some (u_email rao) \<and> u_role rao = ''doctor''
   \<and> assigned_to_doctor \<lparr>users = [asha, rao], patients = [ravi], consultations = []\<rparr>"
proof -
  have r: "reachable ascii (fold (handle ascii) first_day empty_db)"
    by (rule reachable_fold [OF reachable.start])
  have "p_assigned_doctor_email ravi = Some (u_email rao)" "u_role rao = ''doctor''"
    by (simp_all add: ravi_def rao_def)
  then show ?thesis
    using reachable_assigned_to_doctor [OF r, THEN conjunct1] r first_day_db by simp
qed

subsection \<open>Who may share and update\<close>

lemma history_db: "fold (handle ascii) history empty_db = clinic"
  by code_simp

lemma clinic_reachable: "reachable ascii clinic"
  using reachable_fold [OF reachable.start, where py = ascii and rs = history]
  by (simp add: history_db)

lemma share_message_403:
  assumes "find (\<lambda>c. c_id c = consultation_id payload) (consultations d) = Some cons"
    and "find (\<lambda>p. p_id p = c_patient_id cons) (patients d) = Some patient"
  shows "(\<exists>detail. share_message payload cu d = Inl (HTTPException 403 detail))
         = (u_role cu = ''doctor'' \<and> p_assigned_doctor_email patient \<noteq> Some (u_email cu))"
  using assms by (auto simp: share_message_def Let_def)

lemma whatsapp_link_403:
  assumes "find (\<lambda>c. c_id c = consultation_id payload) (consultations d) = Some cons"
    and "find (\<lambda>p. p_id p = c_patient_id cons) (patients d) = Some patient"
  shows "(\<exists>detail. whatsapp_link payload cu d = Inl (HTTPException 403 detail))
         = (u_role cu = ''doctor'' \<and> p_assigned_doctor_email patient \<noteq> Some (u_email cu))"
  using assms by (auto simp: whatsapp_link_def Let_def split: option.splits)

lemma update_consultation_403:
  assumes "find (\<lambda>c. c_id c = cid) (consultations d) = Some cons"
    and "find (\<lambda>p. p_id p = c_patient_id cons) (patients d) = Some patient"
  shows "(\<exists>detail. fst (update_consultation py cid notes status cu d) = Inl (HTTPException 403 detail))
         = (u_role cu = ''doctor'' \<and> p_assigned_doctor_email patient \<noteq> Some (u_email cu))"
  using assms by (auto simp: update_consultation_def Let_def)

text \<open>
  C1. The share-message, WhatsApp-link and update handlers are meant for sales and for the
  doctor assigned to the consultation's patient. They refuse only a doctor who is not
  assigned: in the sample clinic, which the API produces from the empty database, the
  registered admin gets the share message and the link of the first consultation, and
  completes that consultation, where a 403 error was due.
\<close>

theorem admin_shares_and_updates:
  "reachable ascii clinic
   \<and> get_current_user ascii token_is_email (bearer ''root@example.com'') clinic = Inr root
   \<and> u_role root = ''admin''
   \<and> share_message for_visit1 root clinic
       = Inr \<lparr>message =
                ''Hello Ravi, your video consultation is scheduled.'' @ [CHR 0x0A]
                @ link_prefix @ '' Link: https://meet.jit.si/Prakvedaa-a1B2c3D4'' @ [CHR 0x0A]
                @ doctor_prefix @ '' Doctor: rao@example.com'' @ [CHR 0x0A]
                @ time_prefix @ '' Time: 2024-03-09T14:05:00'' @ [CHR 0x0A]
                @ sent_prefix @ '' Sent by root@example.com''\<rparr>
   \<and> whatsapp_link for_visit1 root clinic
       = Inr \<lparr>wa_link = ''https://wa.me/919876543210?text='' @ visit1_text\<rparr>
   \<and> update_consultation ascii 1 None (Some ''Completed'') root clinic
       = (Inr (visit1\<lparr>c_status := Some ''completed''\<rparr>),
          clinic\<lparr>consultations := [visit1\<lparr>c_status := Some ''completed''\<rparr>, visit2]\<rparr>)"
proof -
  have "get_current_user ascii token_is_email (bearer ''root@example.com'') clinic = Inr root"
    by code_simp
  moreover have "u_role root = ''admin''"
    by (simp add: root_def)
  moreover have "share_message for_visit1 root clinic
       = Inr \<lparr>message =
                ''Hello Ravi, your video consultation is scheduled.'' @ [CHR 0x0A]
                @ link_prefix @ '' Link: https://meet.jit.si/Prakvedaa-a1B2c3D4'' @ [CHR 0x0A]
                @ doctor_prefix @ '' Doctor: rao@example.com'' @ [CHR 0x0A]
                @ time_prefix @ '' Time: 2024-03-09T14:05:00'' @ [CHR 0x0A]
                @ sent_prefix @ '' Sent by root@example.com''\<rparr>"
    by code_simp
  moreover have "whatsapp_link for_visit1 root clinic
       = Inr \<lparr>wa_link = ''https://wa.me/919876543210?text='' @ visit1_text\<rparr>"
    by code_simp
  moreover have "update_consultation ascii 1 None (Some ''Completed'') root clinic
       = (Inr (visit1\<lparr>c_status := Some ''completed''\<rparr>),
          clinic\<lparr>consultations := [visit1\<lparr>c_status := Some ''completed''\<rparr>, visit2]\<rparr>)"
    by code_simp
  ultimately show ?thesis
    using clinic_reachable by simp
qed

end
